theory Spec2Isabelle
  imports Main "HOL-Library.Word" "HOL-Library.Signed_Division"
begin

section \<open>Values shared with the Ethereum client library\<close>

text \<open>
  \<^verbatim>\<open>common.Address\<close> is a 20-byte array and \<^verbatim>\<open>common.Hash\<close> a 32-byte array; both are
  compared by value. A Go \<^verbatim>\<open>error\<close> carries its message; one made by \<^verbatim>\<open>fmt.Errorf\<close> is
  recorded by its format string and its argument. The errors that are told apart from the
  others are \<^verbatim>\<open>os.ErrNotExist\<close>, by the program, and \<^verbatim>\<open>hex.InvalidByteError\<close>, which carries
  the offending byte, by \<^verbatim>\<open>crypto.HexToECDSA\<close>. An \<^verbatim>\<open>*ecdsa.PrivateKey\<close> is
  represented by its secret scalar \<^verbatim>\<open>D\<close>, a \<^verbatim>\<open>big.Int\<close>. A signature is the triple
  \<^verbatim>\<open>(V, R, S)\<close> of a transaction; an unsigned transaction has all three zero.
\<close>

type_synonym Address = "160 word"
type_synonym Hash = "256 word"
type_synonym PrivateKey = int
type_synonym Signature = "int \<times> int \<times> int"

datatype error = ErrNotExist | InvalidByteError char | Error string | Errorf string char

subsection \<open>Arbitrary-precision integers\<close>

text \<open>
  \<^verbatim>\<open>big.Int\<close> values are unbounded integers. \<^verbatim>\<open>(*big.Int).Div\<close> is Euclidean division: the
  remainder is never negative. For the divisor zero the library panics; the program
  divides by the literal 100 only.
\<close>

definition big_Div :: "int \<Rightarrow> int \<Rightarrow> int" where
  "big_Div x y = (if 0 < y then x div y else - (x div (- y)))"

definition big_Mul :: "int \<Rightarrow> int \<Rightarrow> int" where
  "big_Mul x y = x * y"

definition big_Sub :: "int \<Rightarrow> int \<Rightarrow> int" where
  "big_Sub x y = x - y"

definition big_Add :: "int \<Rightarrow> int \<Rightarrow> int" where
  "big_Add x y = x + y"

definition big_SetUint64 :: "64 word \<Rightarrow> int" where
  "big_SetUint64 x = uint x"

subsection \<open>Pointers to addresses\<close>

text \<open>
  The program holds addresses behind pointers (\<^verbatim>\<open>*common.Address\<close>) and compares the
  pointers themselves, so the model keeps an explicit store of address variables. Two
  pointers are equal when both are \<^verbatim>\<open>nil\<close> or both refer to the same variable.
\<close>

datatype ptr = nil | Ref nat

record Heap =
  cells :: "nat \<rightharpoonup> Address"
  fresh :: nat

definition new_Address :: "Address \<Rightarrow> Heap \<Rightarrow> ptr \<times> Heap" where
  "new_Address a h =
     (Ref (fresh h), h\<lparr>cells := (cells h)(fresh h \<mapsto> a), fresh := Suc (fresh h)\<rparr>)"

fun load :: "Heap \<Rightarrow> ptr \<Rightarrow> Address option" where
  "load h nil = None"
| "load h (Ref n) = cells h n"

definition empty_Heap :: Heap where
  "empty_Heap = \<lparr>cells = Map.empty, fresh = 0\<rparr>"

subsection \<open>Transactions\<close>

text \<open>
  A \<^verbatim>\<open>types.Transaction\<close> as the node delivers it: destination (absent for a contract
  creation), value, gas limit, gas price, nonce and signature. The accessor
  \<^verbatim>\<open>tx.To()\<close> of the library returns a pointer to a fresh copy of the destination
  (\<^verbatim>\<open>copyAddressPtr\<close>), or \<^verbatim>\<open>nil\<close> when there is none; the other accessors return the
  values.
\<close>

record Transaction =
  inner_to :: "Address option"
  inner_value :: int
  inner_gas :: "64 word"
  inner_gasPrice :: int
  inner_nonce :: "64 word"
  inner_sig :: Signature

definition tx_To :: "Transaction \<Rightarrow> Heap \<Rightarrow> ptr \<times> Heap" where
  "tx_To tx h = (case inner_to tx of None \<Rightarrow> (nil, h) | Some a \<Rightarrow> new_Address a h)"

text \<open>\<^verbatim>\<open>types.LegacyTx\<close>, with the fields the program sets; the others stay zero.\<close>

record LegacyTx =
  To :: ptr
  Value :: int
  Gas :: "64 word"
  GasPrice :: int
  Nonce :: "64 word"

text \<open>\<^verbatim>\<open>types.NewTx\<close> copies the transaction data, the destination included.\<close>

definition NewTx :: "LegacyTx \<Rightarrow> Heap \<Rightarrow> Transaction" where
  "NewTx txdata h =
     \<lparr>inner_to = load h (To txdata), inner_value = Value txdata, inner_gas = Gas txdata,
      inner_gasPrice = GasPrice txdata, inner_nonce = Nonce txdata, inner_sig = (0, 0, 0)\<rparr>"

subsection \<open>The node and the signer\<close>

text \<open>
  What the node and the cryptographic library answer is not part of the program: it is
  taken as given, as functions of the request. \<^verbatim>\<open>Sender\<close> recovers the sender of a
  transaction; \<^verbatim>\<open>SignatureOf\<close> stands for \<^verbatim>\<open>crypto.Sign(s.Hash(tx), prv)\<close>.
\<close>

record Signer =
  Sender :: "Transaction \<Rightarrow> error + Address"
  SignatureOf :: "PrivateKey \<Rightarrow> Transaction \<Rightarrow> error + Signature"

record Client =
  TransactionByHash :: "Hash \<Rightarrow> error + Transaction"
  SendTransaction :: "Transaction \<Rightarrow> error option"

record GethClient =
  SubscribePendingTransactions :: "error option"

text \<open>
  \<^verbatim>\<open>types.SignNewTx(prv, s, txdata)\<close>: build the transaction, sign its hash, and return
  the transaction with the signature set.
\<close>

definition SignNewTx :: "PrivateKey \<Rightarrow> Signer \<Rightarrow> LegacyTx \<Rightarrow> Heap \<Rightarrow> error + Transaction" where
  "SignNewTx prv s txdata h =
     (let tx = NewTx txdata h in
      case SignatureOf s prv tx of
        Inl err \<Rightarrow> Inl err
      | Inr sig \<Rightarrow> Inr (tx\<lparr>inner_sig := sig\<rparr>))"

section \<open>The chain connection\<close>

type_synonym Accounts = "Address \<rightharpoonup> PrivateKey"

record Chain =
  accounts :: Accounts
  reciever :: ptr
  eth :: Client
  geth :: GethClient
  signer :: Signer

text \<open>
  What \<^verbatim>\<open>rpc.Dial\<close> answers for an endpoint: an error, or a client through which the
  chain identifier is queried and the two client views are made. The signer is the
  library's London signer for the chain identifier.
\<close>

record RpcClient =
  ethclient_NewClient :: Client
  ChainID :: "error + int"
  gethclient_New :: GethClient

record Network =
  rpc_Dial :: "string \<Rightarrow> error + RpcClient"
  NewLondonSigner :: "int \<Rightarrow> Signer"

text \<open>
  \<^verbatim>\<open>Connect\<close>. The parameter \<^verbatim>\<open>reciver\<close> is a variable of the call, whose address the
  returned chain keeps (\<^verbatim>\<open>&reciver\<close>).
\<close>

definition Connect :: "Network \<Rightarrow> string \<Rightarrow> Address \<Rightarrow> Accounts \<Rightarrow> Heap \<Rightarrow> (error + Chain) \<times> Heap" where
  "Connect net endpoint reciver accs h =
     (let (reciver_ptr, h1) = new_Address reciver h in
      case rpc_Dial net endpoint of
        Inl err \<Rightarrow> (Inl err, h1)
      | Inr rpcClient \<Rightarrow>
          (case ChainID rpcClient of
             Inl err \<Rightarrow> (Inl err, h1)
           | Inr chainId \<Rightarrow>
               (Inr \<lparr>accounts = accs, reciever = reciver_ptr,
                     eth = ethclient_NewClient rpcClient, geth = gethclient_New rpcClient,
                     signer = NewLondonSigner net chainId\<rparr>, h1)))"

section \<open>The configuration and its JSON form\<close>

text \<open>
  \<^verbatim>\<open>Config\<close>. A Go slice is either \<^verbatim>\<open>nil\<close> or holds a sequence; \<open>None\<close> is the \<^verbatim>\<open>nil\<close>
  slice, which is what the zero value of \<^verbatim>\<open>Config\<close> has. Both have a length and can be
  ranged over.
\<close>

record Config =
  Reciever :: Address
  Endpoints :: "string list option"

definition zero_Config :: Config where
  "zero_Config = \<lparr>Reciever = 0, Endpoints = None\<rparr>"

fun elems :: "'a list option \<Rightarrow> 'a list" where
  "elems None = []"
| "elems (Some xs) = xs"

text \<open>
  The JSON documents the program writes. \<^verbatim>\<open>encoding/json\<close> writes a struct as an object
  with the fields in declaration order under their tag names, a value with a
  \<^verbatim>\<open>MarshalText\<close> method as the string that method returns, a \<^verbatim>\<open>nil\<close> slice as
  \<^verbatim>\<open>null\<close> and any other slice as an array. \<^verbatim>\<open>Address.MarshalText\<close> is \<^verbatim>\<open>0x\<close> followed
  by the 40 lower-case hexadecimal digits of the 20 bytes.
\<close>

datatype json = JNull | JString string | JArray "json list" | JObject "(string \<times> json) list"

definition hextable :: string where
  "hextable = ''0123456789abcdef''"

definition Address_MarshalText :: "Address \<Rightarrow> string" where
  "Address_MarshalText a =
     ''0x'' @ map (\<lambda>i. hextable ! unat (take_bit 4 (drop_bit (4 * i) a))) (rev [0..<40])"

definition json_Marshal :: "Config \<Rightarrow> json" where
  "json_Marshal cfg =
     JObject
       [(''reciever'', JString (Address_MarshalText (Reciever cfg))),
        (''endpoints'',
           (case Endpoints cfg of None \<Rightarrow> JNull | Some es \<Rightarrow> JArray (map JString es)))]"

fun json_field :: "string \<Rightarrow> json \<Rightarrow> json option" where
  "json_field name (JObject members) = map_of members name"
| "json_field name _ = None"

section \<open>Calls and log lines\<close>

text \<open>
  The calls the program makes to the node, the signer, the file system and the log, in
  the order it makes them. A log line is recorded by its format string. \<open>Fatal\<close> is
  \<^verbatim>\<open>log.Fatal\<close> or \<^verbatim>\<open>log.Fatalf\<close>: the line is logged and the process exits.
  \<open>Go_ScanPending\<close> is the start of the goroutine that runs \<^verbatim>\<open>ScanPending\<close> on a chain.
\<close>

datatype call =
    Call_TransactionByHash Hash
  | Call_Sender Transaction
  | Call_SignNewTx PrivateKey LegacyTx
  | Call_SendTransaction Transaction
  | Printf string
  | Println string
  | Fatal string
  | Call_Open string
  | Call_Create string
  | Call_Encode json
  | Call_Connect string
  | Go_ScanPending string Chain

section \<open>ScanPending\<close>

text \<open>
  The body of the \<^verbatim>\<open>case txHash := <-txChan\<close> branch. Every \<^verbatim>\<open>continue\<close> of the source
  is a branch that returns. The condition \<^verbatim>\<open>ok && tx.To() != c.reciever\<close> evaluates
  \<^verbatim>\<open>tx.To()\<close> only when the lookup succeeded, and compares two pointers.
\<close>

definition ScanPending_txHash :: "Chain \<Rightarrow> Hash \<Rightarrow> Heap \<Rightarrow> call list \<times> Heap" where
  "ScanPending_txHash c txHash h =
     (case TransactionByHash (eth c) txHash of
        Inl err \<Rightarrow>
          ([Call_TransactionByHash txHash, Printf ''couldn't get tx by hash %s: %v''], h)
      | Inr tx \<Rightarrow>
          (let (to1, h1) = tx_To tx h in
           if to1 = nil then ([Call_TransactionByHash txHash], h1)
           else
             (case Sender (signer c) tx of
                Inl err \<Rightarrow>
                  ([Call_TransactionByHash txHash, Call_Sender tx,
                    Printf ''couldn't get sender for tx %s: %v''], h1)
              | Inr from \<Rightarrow>
                  (case accounts c from of
                     None \<Rightarrow> ([Call_TransactionByHash txHash, Call_Sender tx], h1)
                   | Some privateKey \<Rightarrow>
                       (let (to2, h2) = tx_To tx h1 in
                        if to2 \<noteq> reciever c then
                          (let gasPrice = big_Mul (big_Div (inner_gasPrice tx) (big_SetUint64 100))
                                            (big_SetUint64 11);
                               additionalFees = big_Mul gasPrice (big_SetUint64 (inner_gas tx));
                               replacementTx =
                                 \<lparr>To = reciever c,
                                  Value = big_Sub (inner_value tx) additionalFees,
                                  Gas = inner_gas tx,
                                  GasPrice = big_Add gasPrice (inner_gasPrice tx),
                                  Nonce = inner_nonce tx\<rparr>
                           in
                             (case SignNewTx privateKey (signer c) replacementTx h2 of
                                Inl err \<Rightarrow>
                                  ([Call_TransactionByHash txHash, Call_Sender tx,
                                    Call_SignNewTx privateKey replacementTx,
                                    Printf ''couldn't sign replacement tx for %s: %v''], h2)
                              | Inr signedTx \<Rightarrow>
                                  (case SendTransaction (eth c) signedTx of
                                     Some err \<Rightarrow>
                                       ([Call_TransactionByHash txHash, Call_Sender tx,
                                         Call_SignNewTx privateKey replacementTx,
                                         Call_SendTransaction signedTx,
                                         Printf ''couldn't send replacement tx for %s: %v''], h2)
                                   | None \<Rightarrow>
                                       ([Call_TransactionByHash txHash, Call_Sender tx,
                                         Call_SignNewTx privateKey replacementTx,
                                         Call_SendTransaction signedTx,
                                         Printf ''replaced %s with %s''], h2))))
                        else ([Call_TransactionByHash txHash, Call_Sender tx], h2))))))"

text \<open>
  The \<^verbatim>\<open>for { select { ... } }\<close> loop. Its input is the sequence of cases the
  \<^verbatim>\<open>select\<close> takes: a value received from \<^verbatim>\<open>sub.Err()\<close> (\<^verbatim>\<open>nil\<close> when that channel was
  closed) or a hash received from \<^verbatim>\<open>txChan\<close>. When the sequence is used up the loop is
  blocked in \<^verbatim>\<open>select\<close>, which is the outcome \<open>Waiting\<close>.
\<close>

datatype select_case = sub_Err "error option" | txChan Hash

datatype outcome = Returned "error option" | Waiting

fun ScanPending_loop :: "Chain \<Rightarrow> select_case list \<Rightarrow> Heap \<Rightarrow> call list \<times> outcome \<times> Heap" where
  "ScanPending_loop c [] h = ([], Waiting, h)"
| "ScanPending_loop c (sub_Err err # evs) h = ([], Returned err, h)"
| "ScanPending_loop c (txChan txHash # evs) h =
     (let (calls, h1) = ScanPending_txHash c txHash h;
          (calls', r, h2) = ScanPending_loop c evs h1
      in (calls @ calls', r, h2))"

definition ScanPending :: "Chain \<Rightarrow> select_case list \<Rightarrow> Heap \<Rightarrow> call list \<times> outcome \<times> Heap" where
  "ScanPending c evs h =
     (case SubscribePendingTransactions (geth c) of
        Some err \<Rightarrow> ([], Returned (Some err), h)
      | None \<Rightarrow> ScanPending_loop c evs h)"

section \<open>Loading the accounts\<close>

text \<open>
  \<^verbatim>\<open>strings.TrimPrefix\<close>, \<^verbatim>\<open>hex.DecodeString\<close> and \<^verbatim>\<open>crypto.HexToECDSA\<close> of the libraries. A
  private key is 32 bytes whose big-endian value \<^verbatim>\<open>D\<close> satisfies \<open>0 < D < N\<close>, with
  \<open>N\<close> the order of the curve secp256k1.
\<close>

definition strings_TrimPrefix :: "string \<Rightarrow> string \<Rightarrow> string" where
  "strings_TrimPrefix s prefix =
     (if take (length prefix) s = prefix then drop (length prefix) s else s)"

definition fromHexChar :: "char \<Rightarrow> nat option" where
  "fromHexChar c =
     (let n = (of_char c :: nat) in
      if 48 \<le> n \<and> n \<le> 57 then Some (n - 48)
      else if 97 \<le> n \<and> n \<le> 102 then Some (n - 97 + 10)
      else if 65 \<le> n \<and> n \<le> 70 then Some (n - 65 + 10)
      else None)"

fun hex_DecodeString :: "string \<Rightarrow> error + nat list" where
  "hex_DecodeString [] = Inr []"
| "hex_DecodeString [p] =
     (case fromHexChar p of
        None \<Rightarrow> Inl (InvalidByteError p)
      | Some a \<Rightarrow> Inl (Error ''encoding/hex: odd length hex string''))"
| "hex_DecodeString (p # q # src) =
     (case fromHexChar p of
        None \<Rightarrow> Inl (InvalidByteError p)
      | Some a \<Rightarrow>
          (case fromHexChar q of
             None \<Rightarrow> Inl (InvalidByteError q)
           | Some b \<Rightarrow>
               (case hex_DecodeString src of
                  Inl err \<Rightarrow> Inl err
                | Inr dst \<Rightarrow> Inr ((a * 16 + b) # dst))))"

definition big_SetBytes :: "nat list \<Rightarrow> int" where
  "big_SetBytes d = foldl (\<lambda>z b. z * 256 + int b) 0 d"

definition secp256k1N :: int where
  "secp256k1N = 115792089237316195423570985008687907852837564279074904382605163141518161494337"

definition ToECDSA :: "nat list \<Rightarrow> error + PrivateKey" where
  "ToECDSA d =
     (if 8 * length d \<noteq> 256 then Inl (Error ''invalid length, need 256 bits'')
      else if secp256k1N \<le> big_SetBytes d then Inl (Error ''invalid private key, >=N'')
      else if big_SetBytes d \<le> 0 then Inl (Error ''invalid private key, zero or negative'')
      else Inr (big_SetBytes d))"

definition HexToECDSA :: "string \<Rightarrow> error + PrivateKey" where
  "HexToECDSA hexkey =
     (case hex_DecodeString hexkey of
        Inl err \<Rightarrow>
          (case err of
             InvalidByteError byteErr \<Rightarrow>
               Inl (Errorf ''invalid hex character %q in private key'' byteErr)
           | _ \<Rightarrow> Inl (Error ''invalid hex data for private key''))
      | Inr b \<Rightarrow> ToECDSA b)"

text \<open>
  The loop of \<^verbatim>\<open>main\<close> over the lines the scanner yields (\<^verbatim>\<open>accountsScanner.Text()\<close> after
  each successful \<^verbatim>\<open>Scan()\<close>). \<^verbatim>\<open>crypto.PubkeyToAddress\<close> of the key's public key is taken
  as a function of the key.
\<close>

fun main_accounts :: "(PrivateKey \<Rightarrow> Address) \<Rightarrow> string list \<Rightarrow> Accounts \<Rightarrow> call list \<times> Accounts" where
  "main_accounts PubkeyToAddress [] accs = ([], accs)"
| "main_accounts PubkeyToAddress (text # lines) accs =
     (case HexToECDSA (strings_TrimPrefix text ''0x'') of
        Inl err \<Rightarrow>
          (let (calls, accs') = main_accounts PubkeyToAddress lines accs
           in (Printf ''couldn't convert hex to ecdsa %s: %v'' # calls, accs'))
      | Inr privateKey \<Rightarrow>
          main_accounts PubkeyToAddress lines (accs(PubkeyToAddress privateKey \<mapsto> privateKey)))"

text \<open>\<^verbatim>\<open>len\<close> of a map is the number of its keys.\<close>

definition len :: "Accounts \<Rightarrow> nat" where
  "len accs = card (dom accs)"

section \<open>main\<close>

text \<open>
  The files as the program finds them: what opening a file gives (its contents, or an
  error), whether creating one and writing to it succeed, what decoding the contents of
  the configuration file gives, and the lines the scanner yields for a file.
\<close>

record Files =
  os_Open :: "string \<Rightarrow> error + string"
  os_Create :: "string \<Rightarrow> error option"
  Encode :: "json \<Rightarrow> error option"
  Decode :: "string \<Rightarrow> error + Config"
  Scan :: "string \<Rightarrow> string list"

text \<open>The loop over \<^verbatim>\<open>config.Endpoints\<close>: one connection and one goroutine per endpoint.\<close>

fun main_endpoints :: "Network \<Rightarrow> Address \<Rightarrow> Accounts \<Rightarrow> string list \<Rightarrow> Heap \<Rightarrow> call list" where
  "main_endpoints net reciver accs [] h = []"
| "main_endpoints net reciver accs (endpoint # endpoints) h =
     (case Connect net endpoint reciver accs h of
        (Inl err, h1) \<Rightarrow>
          Call_Connect endpoint # Printf ''couldn't connect to %s: %v'' #
          main_endpoints net reciver accs endpoints h1
      | (Inr chain, h1) \<Rightarrow>
          Call_Connect endpoint # Go_ScanPending endpoint chain #
          main_endpoints net reciver accs endpoints h1)"

text \<open>\<^verbatim>\<open>main\<close>, up to \<^verbatim>\<open>wg.Wait()\<close>. Nothing follows a \<open>Fatal\<close>.\<close>

definition main :: "Files \<Rightarrow> Network \<Rightarrow> (PrivateKey \<Rightarrow> Address) \<Rightarrow> Heap \<Rightarrow> call list" where
  "main fs net PubkeyToAddress h =
     (case os_Open fs ''config.json'' of
        Inl err \<Rightarrow>
          (if err = ErrNotExist then
             [Call_Open ''config.json'', Println ''config file not found, creating empty config''] @
             (case os_Create fs ''config.json'' of
                Some err \<Rightarrow>
                  [Call_Create ''config.json'', Fatal ''couldn't create empty config: %v'']
              | None \<Rightarrow>
                  (let emtpyConfig = zero_Config in
                   case Encode fs (json_Marshal emtpyConfig) of
                     Some err \<Rightarrow>
                       [Call_Create ''config.json'', Call_Encode (json_Marshal emtpyConfig),
                        Fatal ''couldn't encode empty config: %v'']
                   | None \<Rightarrow>
                       [Call_Create ''config.json'', Call_Encode (json_Marshal emtpyConfig),
                        Fatal ''empty config created, configure it now :)'']))
           else
             [Call_Open ''config.json'', Fatal ''unknown error while reading config: %v''])
      | Inr configFile \<Rightarrow>
          (case Decode fs configFile of
             Inl err \<Rightarrow>
               [Call_Open ''config.json'', Fatal ''unknown error while decoding config: %v'']
           | Inr config \<Rightarrow>
               [Call_Open ''config.json'', Println ''loading accounts...''] @
               (case os_Open fs ''accounts.txt'' of
                  Inl err \<Rightarrow>
                    [Call_Open ''accounts.txt'', Fatal ''error while reading accounts: %v'']
                | Inr accountsFile \<Rightarrow>
                    (let (calls, accs) = main_accounts PubkeyToAddress (Scan fs accountsFile) Map.empty
                     in [Call_Open ''accounts.txt''] @ calls @
                        [Printf ''loaded %d accounts'', Println ''parsing endpoints...''] @
                        main_endpoints net (Reciever config) accs (elems (Endpoints config)) h))))"

section \<open>Notions used in the statements\<close>

text \<open>
  A chain holds the receiver \<open>R\<close> in a heap when its \<^verbatim>\<open>reciever\<close> pointer refers to an
  allocated variable whose value is \<open>R\<close>. \<^verbatim>\<open>Connect\<close> establishes this, and nothing the
  program does afterwards writes to that variable.
\<close>

definition holds_reciever :: "Chain \<Rightarrow> Address \<Rightarrow> Heap \<Rightarrow> bool" where
  "holds_reciever c R h = (\<exists>n. reciever c = Ref n \<and> n < fresh h \<and> cells h n = Some R)"

text \<open>
  A later heap extends an earlier one when every variable of the earlier one is still
  allocated with the same value: the program only ever allocates.
\<close>

definition heap_extends :: "Heap \<Rightarrow> Heap \<Rightarrow> bool" where
  "heap_extends h1 h = (fresh h1 \<le> fresh h \<and> (\<forall>n. n < fresh h1 \<longrightarrow> cells h n = cells h1 n))"

fun is_TransactionByHash :: "call \<Rightarrow> bool" where
  "is_TransactionByHash (Call_TransactionByHash txHash) = True"
| "is_TransactionByHash _ = False"

fun is_Connect :: "call \<Rightarrow> bool" where
  "is_Connect (Call_Connect endpoint) = True"
| "is_Connect (Go_ScanPending endpoint chain) = True"
| "is_Connect _ = False"

section \<open>The end-to-end scenario of the specification\<close>

text \<open>
  The registry holds the address \<open>X\<close>; the receiver is \<open>R\<close>; the node delivers a transaction
  from \<open>X\<close> to \<open>Y\<close> with nonce 5, gas limit 21000, gas price 100 and value 1000000. Signing
  and sending succeed. The chain is the one \<^verbatim>\<open>Connect\<close> returns on the empty heap.
\<close>

definition X :: Address where "X = 0x1111"
definition Y :: Address where "Y = 0x2222"
definition R :: Address where "R = 0xbeef"

definition scenario_tx :: "Address \<Rightarrow> int \<Rightarrow> int \<Rightarrow> Transaction" where
  "scenario_tx dst g v =
     \<lparr>inner_to = Some dst, inner_value = v, inner_gas = 21000, inner_gasPrice = g,
      inner_nonce = 5, inner_sig = (27, 1, 1)\<rparr>"

definition scenario_signer :: Signer where
  "scenario_signer = \<lparr>Sender = (\<lambda>tx. Inr X), SignatureOf = (\<lambda>prv tx. Inr (28, 2, 3))\<rparr>"

definition scenario_net :: "Transaction \<Rightarrow> Network" where
  "scenario_net tx =
     \<lparr>rpc_Dial = (\<lambda>endpoint. Inr
        \<lparr>ethclient_NewClient =
           \<lparr>TransactionByHash = (\<lambda>txHash. Inr tx), SendTransaction = (\<lambda>signedTx. None)\<rparr>,
         ChainID = Inr 1,
         gethclient_New = \<lparr>SubscribePendingTransactions = None\<rparr>\<rparr>),
      NewLondonSigner = (\<lambda>chainId. scenario_signer)\<rparr>"

definition scenario_chain :: "Transaction \<Rightarrow> Chain" where
  "scenario_chain tx =
     \<lparr>accounts = [X \<mapsto> 7], reciever = Ref 0,
      eth = \<lparr>TransactionByHash = (\<lambda>txHash. Inr tx), SendTransaction = (\<lambda>signedTx. None)\<rparr>,
      geth = \<lparr>SubscribePendingTransactions = None\<rparr>,
      signer = scenario_signer\<rparr>"

definition scenario_heap :: Heap where
  "scenario_heap = \<lparr>cells = [0 \<mapsto> R], fresh = 1\<rparr>"

definition scenario_replacement :: "int \<Rightarrow> int \<Rightarrow> LegacyTx" where
  "scenario_replacement g v = \<lparr>To = Ref 0, Value = v, Gas = 21000, GasPrice = g, Nonce = 5\<rparr>"

text \<open>
  A node for which fetching hash 1 fails, sender recovery fails for the transaction of
  hash 2, signing fails for that of hash 3 and sending for that of hash 4. The
  transaction of hash \<open>n\<close> has value \<open>1000000 + n\<close>, so its replacement has value
  \<open>769000 + n\<close>.
\<close>

definition failing_chain :: Chain where
  "failing_chain =
     \<lparr>accounts = [X \<mapsto> 7], reciever = Ref 0,
      eth = \<lparr>TransactionByHash =
               (\<lambda>txHash. if txHash = 1 then Inl (Error ''not found'')
                         else Inr (scenario_tx Y 100 (1000000 + uint txHash))),
             SendTransaction =
               (\<lambda>signedTx. if inner_value signedTx = 769004 then Some (Error ''underpriced'')
                           else None)\<rparr>,
      geth = \<lparr>SubscribePendingTransactions = None\<rparr>,
      signer = \<lparr>Sender = (\<lambda>tx. if inner_value tx = 1000002 then Inl (Error ''invalid signature'')
                               else Inr X),
                SignatureOf = (\<lambda>prv tx. if inner_value tx = 769003 then Inl (Error ''sign'')
                                         else Inr (28, 2, 3))\<rparr>\<rparr>"

section \<open>A first run without a configuration file\<close>

definition absent_files :: Files where
  "absent_files =
     \<lparr>os_Open = (\<lambda>name. Inl ErrNotExist), os_Create = (\<lambda>name. None),
      Encode = (\<lambda>doc. None), Decode = (\<lambda>contents. Inl (Error ''EOF'')),
      Scan = (\<lambda>contents. [])\<rparr>"

definition scenario_PubkeyToAddress :: "PrivateKey \<Rightarrow> Address" where
  "scenario_PubkeyToAddress prv = word_of_int prv"

section \<open>Facts about the model\<close>

subsection \<open>The scenario\<close>

lemma scenario_Connect:
  "Connect (scenario_net tx) ''ws://node'' R [X \<mapsto> 7] empty_Heap = (Inr (scenario_chain tx), scenario_heap)"
  by (simp add: Connect_def scenario_net_def scenario_chain_def scenario_heap_def empty_Heap_def new_Address_def)

lemma scenario_run:
  "fst (ScanPending_txHash (scenario_chain (scenario_tx dst g v)) txHash scenario_heap) =
     [Call_TransactionByHash txHash, Call_Sender (scenario_tx dst g v),
      Call_SignNewTx 7 (scenario_replacement (g div 100 * 11 + g) (v - g div 100 * 11 * 21000)),
      Call_SendTransaction
        \<lparr>inner_to = Some R, inner_value = v - g div 100 * 11 * 21000, inner_gas = 21000,
         inner_gasPrice = g div 100 * 11 + g, inner_nonce = 5, inner_sig = (28, 2, 3)\<rparr>,
      Printf ''replaced %s with %s'']"
  by (simp add: ScanPending_txHash_def scenario_chain_def scenario_tx_def scenario_heap_def
      scenario_signer_def scenario_replacement_def tx_To_def new_Address_def SignNewTx_def NewTx_def
      big_Div_def big_Mul_def big_Sub_def big_Add_def big_SetUint64_def X_def Let_def)

lemma scenario_hyps:
  "TransactionByHash (eth (scenario_chain tx)) txHash = Inr tx"
  "Sender (signer (scenario_chain tx)) tx = Inr X"
  "accounts (scenario_chain tx) X = Some 7"
  "holds_reciever (scenario_chain tx) R scenario_heap"
  "inner_to (scenario_tx dst g v) = Some dst"
  by (simp_all add: scenario_chain_def scenario_signer_def scenario_heap_def scenario_tx_def
      holds_reciever_def)

subsection \<open>One pending hash\<close>

lemma sign_callD:
  assumes "Call_SignNewTx k r \<in> set (fst (ScanPending_txHash c txHash h))"
  shows "\<exists>tx from. TransactionByHash (eth c) txHash = Inr tx \<and> inner_to tx \<noteq> None \<and>
           Sender (signer c) tx = Inr from \<and> accounts c from = Some k \<and>
           r = \<lparr>To = reciever c,
                Value = inner_value tx - inner_gasPrice tx div 100 * 11 * uint (inner_gas tx),
                Gas = inner_gas tx,
                GasPrice = inner_gasPrice tx div 100 * 11 + inner_gasPrice tx,
                Nonce = inner_nonce tx\<rparr>"
  using assms
  by (auto simp: ScanPending_txHash_def tx_To_def new_Address_def Let_def
      big_Div_def big_Mul_def big_Sub_def big_Add_def big_SetUint64_def
      split: sum.splits option.splits if_splits prod.splits)

lemma ScanPending_txHash_heap:
  assumes "n < fresh h"
  shows "n < fresh (snd (ScanPending_txHash c txHash h)) \<and>
         cells (snd (ScanPending_txHash c txHash h)) n = cells h n"
  using assms
  by (auto simp: ScanPending_txHash_def tx_To_def new_Address_def Let_def
      split: sum.splits option.splits if_splits prod.splits)

lemma holds_reciever_ScanPending_txHash:
  "holds_reciever c R' h \<Longrightarrow> holds_reciever c R' (snd (ScanPending_txHash c txHash h))"
  unfolding holds_reciever_def using ScanPending_txHash_heap by metis

lemma holds_reciever_Connect:
  "Connect net endpoint reciver accs h = (Inr c, h') \<Longrightarrow> holds_reciever c reciver h'"
  by (auto simp: Connect_def new_Address_def holds_reciever_def split: sum.splits)

lemma accepted_run:
  assumes "TransactionByHash (eth c) txHash = Inr tx"
    and "inner_to tx = Some dst"
    and "Sender (signer c) tx = Inr from"
    and "accounts c from = Some k"
    and "holds_reciever c R' h"
    and "r = \<lparr>To = reciever c,
              Value = inner_value tx - inner_gasPrice tx div 100 * 11 * uint (inner_gas tx),
              Gas = inner_gas tx,
              GasPrice = inner_gasPrice tx div 100 * 11 + inner_gasPrice tx,
              Nonce = inner_nonce tx\<rparr>"
  shows "fst (ScanPending_txHash c txHash h) =
           [Call_TransactionByHash txHash, Call_Sender tx, Call_SignNewTx k r] @
           (case SignNewTx k (signer c) r (snd (ScanPending_txHash c txHash h)) of
              Inl err \<Rightarrow> [Printf ''couldn't sign replacement tx for %s: %v'']
            | Inr signedTx \<Rightarrow>
                Call_SendTransaction signedTx #
                (case SendTransaction (eth c) signedTx of
                   Some err \<Rightarrow> [Printf ''couldn't send replacement tx for %s: %v'']
                 | None \<Rightarrow> [Printf ''replaced %s with %s'']))"
  using assms
  by (auto simp: ScanPending_txHash_def tx_To_def new_Address_def Let_def holds_reciever_def
      big_Div_def big_Mul_def big_Sub_def big_Add_def big_SetUint64_def
      split: sum.splits option.splits)

lemma SignNewTx_content:
  "SignNewTx k s r h = Inr signedTx \<Longrightarrow>
     inner_to signedTx = load h (To r) \<and> inner_value signedTx = Value r \<and>
     inner_gas signedTx = Gas r \<and> inner_gasPrice signedTx = GasPrice r \<and>
     inner_nonce signedTx = Nonce r"
  by (auto simp: SignNewTx_def NewTx_def Let_def split: sum.splits)

lemma accepted_replacement:
  assumes "TransactionByHash (eth c) txHash = Inr tx"
    and "inner_to tx = Some dst"
    and "Sender (signer c) tx = Inr from"
    and "accounts c from = Some k"
    and "holds_reciever c R' h"
    and "r = \<lparr>To = reciever c,
              Value = inner_value tx - inner_gasPrice tx div 100 * 11 * uint (inner_gas tx),
              Gas = inner_gas tx,
              GasPrice = inner_gasPrice tx div 100 * 11 + inner_gasPrice tx,
              Nonce = inner_nonce tx\<rparr>"
  shows "Call_SignNewTx k r \<in> set (fst (ScanPending_txHash c txHash h))"
    and "\<forall>k' r'. Call_SignNewTx k' r' \<in> set (fst (ScanPending_txHash c txHash h)) \<longrightarrow> r' = r"
    and "\<forall>signedTx. SignNewTx k (signer c) r (snd (ScanPending_txHash c txHash h)) = Inr signedTx \<longrightarrow>
           Call_SendTransaction signedTx \<in> set (fst (ScanPending_txHash c txHash h))"
proof -
  note run = accepted_run [OF assms]
  show "Call_SignNewTx k r \<in> set (fst (ScanPending_txHash c txHash h))"
    by (simp add: run)
  show "\<forall>k' r'. Call_SignNewTx k' r' \<in> set (fst (ScanPending_txHash c txHash h)) \<longrightarrow> r' = r"
  proof (intro allI impI)
    fix k' r'
    assume "Call_SignNewTx k' r' \<in> set (fst (ScanPending_txHash c txHash h))"
    from sign_callD [OF this] assms(1,6) show "r' = r" by auto
  qed
  show "\<forall>signedTx. SignNewTx k (signer c) r (snd (ScanPending_txHash c txHash h)) = Inr signedTx \<longrightarrow>
           Call_SendTransaction signedTx \<in> set (fst (ScanPending_txHash c txHash h))"
    by (simp add: run)
qed

lemma holds_reciever_extends:
  "holds_reciever c R' h1 \<Longrightarrow> heap_extends h1 h \<Longrightarrow> holds_reciever c R' h"
  by (auto simp: holds_reciever_def heap_extends_def)

lemma Connect_accounts:
  "Connect net endpoint reciver accs h = (Inr c, h') \<Longrightarrow> accounts c = accs"
  by (auto simp: Connect_def new_Address_def split: sum.splits)

lemma heap_extends_refl: "heap_extends h h"
  by (simp add: heap_extends_def)

lemma step_fetch_fails:
  "TransactionByHash (eth c) txHash = Inl e \<Longrightarrow>
     ScanPending_txHash c txHash h =
       ([Call_TransactionByHash txHash, Printf ''couldn't get tx by hash %s: %v''], h)"
  by (simp add: ScanPending_txHash_def)

lemma step_sender_fails:
  "TransactionByHash (eth c) txHash = Inr tx \<Longrightarrow> inner_to tx = Some dst \<Longrightarrow>
   Sender (signer c) tx = Inl e \<Longrightarrow>
     fst (ScanPending_txHash c txHash h) =
       [Call_TransactionByHash txHash, Call_Sender tx, Printf ''couldn't get sender for tx %s: %v'']"
  by (simp add: ScanPending_txHash_def tx_To_def new_Address_def)

lemma step_sign_send_fails:
  assumes "TransactionByHash (eth c) txHash = Inr tx"
    and "inner_to tx = Some dst"
    and "Sender (signer c) tx = Inr from"
    and "accounts c from = Some k"
    and "holds_reciever c R' h"
  shows "\<exists>r. Call_SignNewTx k r \<in> set (fst (ScanPending_txHash c txHash h)) \<and>
           (\<forall>e. SignNewTx k (signer c) r (snd (ScanPending_txHash c txHash h)) = Inl e \<longrightarrow>
              fst (ScanPending_txHash c txHash h) =
                [Call_TransactionByHash txHash, Call_Sender tx, Call_SignNewTx k r,
                 Printf ''couldn't sign replacement tx for %s: %v'']) \<and>
           (\<forall>signedTx e.
              SignNewTx k (signer c) r (snd (ScanPending_txHash c txHash h)) = Inr signedTx \<and>
              SendTransaction (eth c) signedTx = Some e \<longrightarrow>
              fst (ScanPending_txHash c txHash h) =
                [Call_TransactionByHash txHash, Call_Sender tx, Call_SignNewTx k r,
                 Call_SendTransaction signedTx,
                 Printf ''couldn't send replacement tx for %s: %v''])"
proof -
  define r where "r = \<lparr>To = reciever c,
              Value = inner_value tx - inner_gasPrice tx div 100 * 11 * uint (inner_gas tx),
              Gas = inner_gas tx,
              GasPrice = inner_gasPrice tx div 100 * 11 + inner_gasPrice tx,
              Nonce = inner_nonce tx\<rparr>"
  note run = accepted_run [OF assms r_def]
  have "Call_SignNewTx k r \<in> set (fst (ScanPending_txHash c txHash h))"
    by (simp add: run)
  moreover have "fst (ScanPending_txHash c txHash h) =
                [Call_TransactionByHash txHash, Call_Sender tx, Call_SignNewTx k r,
                 Printf ''couldn't sign replacement tx for %s: %v'']"
    if "SignNewTx k (signer c) r (snd (ScanPending_txHash c txHash h)) = Inl e" for e
    using that by (simp add: run)
  moreover have "fst (ScanPending_txHash c txHash h) =
                [Call_TransactionByHash txHash, Call_Sender tx, Call_SignNewTx k r,
                 Call_SendTransaction signedTx,
                 Printf ''couldn't send replacement tx for %s: %v'']"
    if "SignNewTx k (signer c) r (snd (ScanPending_txHash c txHash h)) = Inr signedTx"
      and "SendTransaction (eth c) signedTx = Some e" for signedTx e
    using that by (simp add: run)
  ultimately show ?thesis by blast
qed

lemma fetch_once:
  "filter is_TransactionByHash (fst (ScanPending_txHash c txHash h)) = [Call_TransactionByHash txHash]"
  by (simp add: ScanPending_txHash_def Let_def split: sum.splits option.splits prod.splits)

subsection \<open>The loop\<close>

lemma ScanPending_loop_txChan:
  "ScanPending_loop c (txChan txHash # evs) h =
     (fst (ScanPending_txHash c txHash h) @ fst (ScanPending_loop c evs (snd (ScanPending_txHash c txHash h))),
      snd (ScanPending_loop c evs (snd (ScanPending_txHash c txHash h))))"
  by (simp add: split_beta)

lemma loop_until_error:
  "fst (ScanPending_loop c (map txChan hs @ sub_Err err # evs) h) = fst (ScanPending_loop c (map txChan hs) h) \<and>
   fst (snd (ScanPending_loop c (map txChan hs @ sub_Err err # evs) h)) = Returned err"
  by (induction hs arbitrary: h) (simp_all add: split_beta)

lemma loop_fetches:
  "filter is_TransactionByHash (fst (ScanPending_loop c (map txChan hs) h)) = map Call_TransactionByHash hs \<and>
   fst (snd (ScanPending_loop c (map txChan hs) h)) = Waiting"
  by (induction hs arbitrary: h) (simp_all add: split_beta fetch_once)

lemma failing_trace:
  "fst (ScanPending failing_chain
     (map txChan [1, 2, 3, 4, 5] @ sub_Err (Some (Error ''EOF'')) # [txChan 6]) scenario_heap) =
    [Call_TransactionByHash 1, Printf ''couldn't get tx by hash %s: %v'',
     Call_TransactionByHash 2, Call_Sender (scenario_tx Y 100 1000002),
     Printf ''couldn't get sender for tx %s: %v'',
     Call_TransactionByHash 3, Call_Sender (scenario_tx Y 100 1000003),
     Call_SignNewTx 7 (scenario_replacement 111 769003),
     Printf ''couldn't sign replacement tx for %s: %v'',
     Call_TransactionByHash 4, Call_Sender (scenario_tx Y 100 1000004),
     Call_SignNewTx 7 (scenario_replacement 111 769004),
     Call_SendTransaction
       \<lparr>inner_to = Some R, inner_value = 769004, inner_gas = 21000,
        inner_gasPrice = 111, inner_nonce = 5, inner_sig = (28, 2, 3)\<rparr>,
     Printf ''couldn't send replacement tx for %s: %v'',
     Call_TransactionByHash 5, Call_Sender (scenario_tx Y 100 1000005),
     Call_SignNewTx 7 (scenario_replacement 111 769005),
     Call_SendTransaction
       \<lparr>inner_to = Some R, inner_value = 769005, inner_gas = 21000,
        inner_gasPrice = 111, inner_nonce = 5, inner_sig = (28, 2, 3)\<rparr>,
     Printf ''replaced %s with %s'']"
  by (simp add: ScanPending_def ScanPending_txHash_def failing_chain_def scenario_tx_def
      scenario_heap_def scenario_replacement_def tx_To_def new_Address_def SignNewTx_def
      NewTx_def Let_def big_Div_def big_Mul_def big_Sub_def big_Add_def big_SetUint64_def X_def)

lemma failing_hyps:
  "SubscribePendingTransactions (geth failing_chain) = None"
  "TransactionByHash (eth failing_chain) 1 = Inl (Error ''not found'')"
  "TransactionByHash (eth failing_chain) 2 = Inr (scenario_tx Y 100 1000002)"
  "Sender (signer failing_chain) (scenario_tx Y 100 1000002) = Inl (Error ''invalid signature'')"
  "TransactionByHash (eth failing_chain) 3 = Inr (scenario_tx Y 100 1000003)"
  "Sender (signer failing_chain) (scenario_tx Y 100 1000003) = Inr X"
  "TransactionByHash (eth failing_chain) 4 = Inr (scenario_tx Y 100 1000004)"
  "Sender (signer failing_chain) (scenario_tx Y 100 1000004) = Inr X"
  "accounts failing_chain X = Some 7"
  "holds_reciever failing_chain R scenario_heap"
  by (simp_all add: failing_chain_def scenario_tx_def holds_reciever_def scenario_heap_def)

lemma failing_steps:
  "fst (ScanPending_txHash failing_chain 2 scenario_heap) =
     [Call_TransactionByHash 2, Call_Sender (scenario_tx Y 100 1000002),
      Printf ''couldn't get sender for tx %s: %v'']"
  "SignNewTx 7 (signer failing_chain) (scenario_replacement 111 769003)
     (snd (ScanPending_txHash failing_chain 3 scenario_heap)) = Inl (Error ''sign'')"
  "fst (ScanPending_txHash failing_chain 3 scenario_heap) =
     [Call_TransactionByHash 3, Call_Sender (scenario_tx Y 100 1000003),
      Call_SignNewTx 7 (scenario_replacement 111 769003),
      Printf ''couldn't sign replacement tx for %s: %v'']"
  "SignNewTx 7 (signer failing_chain) (scenario_replacement 111 769004)
     (snd (ScanPending_txHash failing_chain 4 scenario_heap)) =
     Inr \<lparr>inner_to = Some R, inner_value = 769004, inner_gas = 21000,
          inner_gasPrice = 111, inner_nonce = 5, inner_sig = (28, 2, 3)\<rparr>"
  "SendTransaction (eth failing_chain)
     \<lparr>inner_to = Some R, inner_value = 769004, inner_gas = 21000,
      inner_gasPrice = 111, inner_nonce = 5, inner_sig = (28, 2, 3)\<rparr> = Some (Error ''underpriced'')"
  "fst (ScanPending_txHash failing_chain 4 scenario_heap) =
     [Call_TransactionByHash 4, Call_Sender (scenario_tx Y 100 1000004),
      Call_SignNewTx 7 (scenario_replacement 111 769004),
      Call_SendTransaction
        \<lparr>inner_to = Some R, inner_value = 769004, inner_gas = 21000,
         inner_gasPrice = 111, inner_nonce = 5, inner_sig = (28, 2, 3)\<rparr>,
      Printf ''couldn't send replacement tx for %s: %v'']"
  by (simp_all add: ScanPending_txHash_def failing_chain_def scenario_tx_def
      scenario_heap_def scenario_replacement_def tx_To_def new_Address_def SignNewTx_def
      NewTx_def Let_def big_Div_def big_Mul_def big_Sub_def big_Add_def big_SetUint64_def X_def)

subsection \<open>Accounts and configuration\<close>

lemma zero_text: "Address_MarshalText 0 = ''0x0000000000000000000000000000000000000000''"
  by code_simp

lemma template: "json_Marshal zero_Config =
   JObject [(''reciever'', JString ''0x0000000000000000000000000000000000000000''), (''endpoints'', JNull)]"
  by (simp add: json_Marshal_def zero_Config_def zero_text)

lemma not_a_key:
  "HexToECDSA (strings_TrimPrefix ''not-a-key'' ''0x'') =
     Inl (Errorf ''invalid hex character %q in private key'' CHR ''n'')"
  by (simp add: HexToECDSA_def strings_TrimPrefix_def fromHexChar_def)

lemma good_key: "HexToECDSA (strings_TrimPrefix ''0x4c0883a69102937d6231471b5dbb6204fe5129617082792ae468d01a3f362318'' ''0x'')
   = Inr 0x4c0883a69102937d6231471b5dbb6204fe5129617082792ae468d01a3f362318"
  by (simp add: HexToECDSA_def strings_TrimPrefix_def fromHexChar_def ToECDSA_def big_SetBytes_def secp256k1N_def)

lemma main_accounts_skip:
  "HexToECDSA (strings_TrimPrefix bad ''0x'') = Inl e \<Longrightarrow>
     snd (main_accounts P (pre @ bad # post) accs) = snd (main_accounts P (pre @ post) accs)"
  by (induction pre arbitrary: accs) (simp_all add: split_beta split: sum.splits)

lemma main_accounts_keeps:
  "\<exists>k. accs a = Some k \<and> P k = a \<Longrightarrow>
     \<exists>k'. snd (main_accounts P lines accs) a = Some k' \<and> P k' = a"
proof (induction lines arbitrary: accs)
  case Nil
  then show ?case by simp
next
  case (Cons l lines)
  show ?case
  proof (cases "HexToECDSA (strings_TrimPrefix l ''0x'')")
    case (Inl err)
    with Cons.IH [of accs] Cons.prems show ?thesis by (simp add: split_beta)
  next
    case (Inr privateKey)
    have "\<exists>k. (accs(P privateKey \<mapsto> privateKey)) a = Some k \<and> P k = a"
      using Cons.prems by auto
    then have "\<exists>k'. snd (main_accounts P lines (accs(P privateKey \<mapsto> privateKey))) a = Some k' \<and> P k' = a"
      by (rule Cons.IH)
    with Inr show ?thesis by simp
  qed
qed

lemma main_accounts_loaded:
  "good \<in> set lines \<Longrightarrow> HexToECDSA (strings_TrimPrefix good ''0x'') = Inr k \<Longrightarrow>
     \<exists>k'. snd (main_accounts P lines accs) (P k) = Some k' \<and> P k' = P k"
proof (induction lines arbitrary: accs)
  case Nil
  then show ?case by simp
next
  case (Cons l lines)
  show ?case
  proof (cases "l = good")
    case True
    have "\<exists>k0. (accs(P k \<mapsto> k)) (P k) = Some k0 \<and> P k0 = P k" by simp
    then have "\<exists>k'. snd (main_accounts P lines (accs(P k \<mapsto> k))) (P k) = Some k' \<and> P k' = P k"
      by (rule main_accounts_keeps)
    with True Cons.prems(2) show ?thesis by simp
  next
    case False
    with Cons.prems have "good \<in> set lines" by simp
    with Cons.IH Cons.prems(2) show ?thesis
      by (simp add: split_beta split: sum.splits)
  qed
qed

lemma main_absent:
  assumes "os_Open fs ''config.json'' = Inl ErrNotExist"
  shows "main fs net P h =
           [Call_Open ''config.json'', Println ''config file not found, creating empty config'',
            Call_Create ''config.json''] @
           (case os_Create fs ''config.json'' of
              Some err \<Rightarrow> [Fatal ''couldn't create empty config: %v'']
            | None \<Rightarrow>
                (case Encode fs (json_Marshal zero_Config) of
                   Some err \<Rightarrow> [Call_Encode (json_Marshal zero_Config), Fatal ''couldn't encode empty config: %v'']
                 | None \<Rightarrow> [Call_Encode (json_Marshal zero_Config), Fatal ''empty config created, configure it now :)'']))"
  using assms by (simp add: main_def split: option.splits)

section \<open>The claims\<close>

text \<open>
  Claim C1. For every observed transaction whose destination address already equals the
  configured receiver address, no replacement is constructed, whatever the sender.

  The program does not do this. Its test \<^verbatim>\<open>tx.To() != c.reciever\<close> compares two pointers, the
  fresh copy \<^verbatim>\<open>tx.To()\<close> returns and the address of \<^verbatim>\<open>Connect\<close>'s parameter, which are never
  equal. In the scenario with the destination set to the receiver \<open>R\<close> itself, on the chain
  \<^verbatim>\<open>Connect\<close> returns for \<open>R\<close>, the replacement is constructed, signed and sent.
\<close>

theorem receiver_destination_replaced:
  "Connect (scenario_net (scenario_tx R 100 1000000)) ''ws://node'' R [X \<mapsto> 7] empty_Heap =
     (Inr (scenario_chain (scenario_tx R 100 1000000)), scenario_heap) \<and>
   load scenario_heap (reciever (scenario_chain (scenario_tx R 100 1000000))) = Some R \<and>
   inner_to (scenario_tx R 100 1000000) = Some R \<and>
   fst (ScanPending_txHash (scenario_chain (scenario_tx R 100 1000000)) 1 scenario_heap) =
     [Call_TransactionByHash 1, Call_Sender (scenario_tx R 100 1000000),
      Call_SignNewTx 7 (scenario_replacement 111 769000),
      Call_SendTransaction
        \<lparr>inner_to = Some R, inner_value = 769000, inner_gas = 21000,
         inner_gasPrice = 111, inner_nonce = 5, inner_sig = (28, 2, 3)\<rparr>,
      Printf ''replaced %s with %s'']"
  by (simp add: scenario_Connect scenario_run scenario_hyps)
    (simp add: scenario_chain_def scenario_heap_def)

text \<open>
  Claim C2. For a transaction with a destination whose recovered sender is in the registry
  of a chain that holds its receiver, and whose gas price is \<open>g\<close>, exactly one replacement is
  constructed and passed to \<^verbatim>\<open>SignNewTx\<close>; its gas price is \<open>g + floor(g/100)*11\<close>, and when
  signing succeeds the signed transaction that is sent has that gas price. On \<open>int\<close>, \<open>div\<close>
  rounds down; for the gas prices a node delivers, which are not negative, this is also
  the truncating quotient \<open>sdiv\<close>. The witness has gas price 250, where the division
  truncates.
\<close>

theorem replacement_gasPrice:
  assumes "TransactionByHash (eth c) txHash = Inr tx"
    and "inner_to tx = Some dst"
    and "Sender (signer c) tx = Inr from"
    and "accounts c from = Some k"
    and "holds_reciever c R' h"
  shows "\<exists>r. Call_SignNewTx k r \<in> set (fst (ScanPending_txHash c txHash h)) \<and>
             (\<forall>k' r'. Call_SignNewTx k' r' \<in> set (fst (ScanPending_txHash c txHash h)) \<longrightarrow> r' = r) \<and>
             GasPrice r = inner_gasPrice tx + inner_gasPrice tx div 100 * 11 \<and>
             (0 \<le> inner_gasPrice tx \<longrightarrow>
                GasPrice r = inner_gasPrice tx + (inner_gasPrice tx sdiv 100) * 11) \<and>
             (\<forall>signedTx. SignNewTx k (signer c) r (snd (ScanPending_txHash c txHash h)) = Inr signedTx \<longrightarrow>
                inner_gasPrice signedTx = GasPrice r \<and>
                Call_SendTransaction signedTx \<in> set (fst (ScanPending_txHash c txHash h)))"
proof -
  define r where "r = \<lparr>To = reciever c,
              Value = inner_value tx - inner_gasPrice tx div 100 * 11 * uint (inner_gas tx),
              Gas = inner_gas tx,
              GasPrice = inner_gasPrice tx div 100 * 11 + inner_gasPrice tx,
              Nonce = inner_nonce tx\<rparr>"
  note acc = accepted_replacement [OF assms r_def]
  have g: "GasPrice r = inner_gasPrice tx + inner_gasPrice tx div 100 * 11"
    by (simp add: r_def)
  have t: "GasPrice r = inner_gasPrice tx + (inner_gasPrice tx sdiv 100) * 11"
    if "0 \<le> inner_gasPrice tx"
  proof -
    from that have "inner_gasPrice tx sdiv 100 = inner_gasPrice tx div 100"
      by (simp add: signed_divide_int_def sgn_if)
    with g show ?thesis by simp
  qed
  have b: "inner_gasPrice signedTx = GasPrice r \<and>
           Call_SendTransaction signedTx \<in> set (fst (ScanPending_txHash c txHash h))"
    if "SignNewTx k (signer c) r (snd (ScanPending_txHash c txHash h)) = Inr signedTx" for signedTx
    using that SignNewTx_content [OF that] acc(3) by simp
  from acc(1,2) g t b show ?thesis by blast
qed

theorem replacement_gasPrice_witness:
  "TransactionByHash (eth (scenario_chain (scenario_tx Y 250 1000000))) 1 = Inr (scenario_tx Y 250 1000000) \<and>
   inner_to (scenario_tx Y 250 1000000) = Some Y \<and>
   Sender (signer (scenario_chain (scenario_tx Y 250 1000000))) (scenario_tx Y 250 1000000) = Inr X \<and>
   accounts (scenario_chain (scenario_tx Y 250 1000000)) X = Some 7 \<and>
   holds_reciever (scenario_chain (scenario_tx Y 250 1000000)) R scenario_heap \<and>
   (0::int) \<le> inner_gasPrice (scenario_tx Y 250 1000000) \<and>
   (\<exists>r. Call_SignNewTx 7 r
           \<in> set (fst (ScanPending_txHash (scenario_chain (scenario_tx Y 250 1000000)) 1 scenario_heap)) \<and>
        GasPrice r = 272) \<and>
   Call_SignNewTx 7 (scenario_replacement 272 538000)
     \<in> set (fst (ScanPending_txHash (scenario_chain (scenario_tx Y 250 1000000)) 1 scenario_heap))"
proof -
  from replacement_gasPrice [OF scenario_hyps(1) scenario_hyps(5) scenario_hyps(2,3,4),
      of Y 250 1000000 1]
  obtain r where "Call_SignNewTx 7 r
        \<in> set (fst (ScanPending_txHash (scenario_chain (scenario_tx Y 250 1000000)) 1 scenario_heap))"
    and "GasPrice r = inner_gasPrice (scenario_tx Y 250 1000000) +
           inner_gasPrice (scenario_tx Y 250 1000000) div 100 * 11"
    by blast
  then have "\<exists>r. Call_SignNewTx 7 r
           \<in> set (fst (ScanPending_txHash (scenario_chain (scenario_tx Y 250 1000000)) 1 scenario_heap)) \<and>
        GasPrice r = 272"
    by (auto simp: scenario_tx_def)
  moreover have "(0::int) \<le> inner_gasPrice (scenario_tx Y 250 1000000)"
    by (simp add: scenario_tx_def)
  moreover have "Call_SignNewTx 7 (scenario_replacement 272 538000)
     \<in> set (fst (ScanPending_txHash (scenario_chain (scenario_tx Y 250 1000000)) 1 scenario_heap))"
    by (simp add: scenario_run)
  ultimately show ?thesis
    using scenario_hyps(1) [of "scenario_tx Y 250 1000000" 1]
      scenario_hyps(2,3,4) [of "scenario_tx Y 250 1000000"] scenario_hyps(5) [of Y 250 1000000]
    by blast
qed

text \<open>
  Claim C3. For a transaction with a destination whose recovered sender is in the registry
  of a chain that holds its receiver, exactly one replacement is constructed; its value is
  \<open>v - (floor(g/100)*11) * l\<close>, whatever its sign. It is passed to \<^verbatim>\<open>SignNewTx\<close>, and when
  signing succeeds the signed transaction, with that same value, is passed to
  \<^verbatim>\<open>SendTransaction\<close>. The witness is a case where the value is negative.
\<close>

theorem replacement_value:
  assumes "TransactionByHash (eth c) txHash = Inr tx"
    and "inner_to tx = Some dst"
    and "Sender (signer c) tx = Inr from"
    and "accounts c from = Some k"
    and "holds_reciever c R' h"
  shows "\<exists>r. Value r = inner_value tx - (inner_gasPrice tx div 100 * 11) * uint (inner_gas tx) \<and>
             Call_SignNewTx k r \<in> set (fst (ScanPending_txHash c txHash h)) \<and>
             (\<forall>k' r'. Call_SignNewTx k' r' \<in> set (fst (ScanPending_txHash c txHash h)) \<longrightarrow> r' = r) \<and>
             (\<forall>signedTx. SignNewTx k (signer c) r (snd (ScanPending_txHash c txHash h)) = Inr signedTx \<longrightarrow>
                inner_value signedTx = Value r \<and>
                Call_SendTransaction signedTx \<in> set (fst (ScanPending_txHash c txHash h)))"
proof -
  define r where "r = \<lparr>To = reciever c,
              Value = inner_value tx - inner_gasPrice tx div 100 * 11 * uint (inner_gas tx),
              Gas = inner_gas tx,
              GasPrice = inner_gasPrice tx div 100 * 11 + inner_gasPrice tx,
              Nonce = inner_nonce tx\<rparr>"
  note run = accepted_run [OF assms r_def]
  have v: "Value r = inner_value tx - (inner_gasPrice tx div 100 * 11) * uint (inner_gas tx)"
    by (simp add: r_def)
  have s: "Call_SignNewTx k r \<in> set (fst (ScanPending_txHash c txHash h))"
    by (simp add: run)
  have u: "r' = r" if "Call_SignNewTx k' r' \<in> set (fst (ScanPending_txHash c txHash h))" for k' r'
    using sign_callD [OF that] assms(1) by (auto simp: r_def)
  have b: "inner_value signedTx = Value r \<and>
           Call_SendTransaction signedTx \<in> set (fst (ScanPending_txHash c txHash h))"
    if "SignNewTx k (signer c) r (snd (ScanPending_txHash c txHash h)) = Inr signedTx" for signedTx
    using that SignNewTx_content [OF that] by (simp add: run)
  from v s u b show ?thesis by blast
qed

theorem replacement_value_witness:
  "TransactionByHash (eth (scenario_chain (scenario_tx Y 100 0))) 1 = Inr (scenario_tx Y 100 0) \<and>
   inner_to (scenario_tx Y 100 0) = Some Y \<and>
   Sender (signer (scenario_chain (scenario_tx Y 100 0))) (scenario_tx Y 100 0) = Inr X \<and>
   accounts (scenario_chain (scenario_tx Y 100 0)) X = Some 7 \<and>
   holds_reciever (scenario_chain (scenario_tx Y 100 0)) R scenario_heap \<and>
   (\<exists>r. Value r = - 231000 \<and>
        Call_SignNewTx 7 r \<in> set (fst (ScanPending_txHash (scenario_chain (scenario_tx Y 100 0)) 1 scenario_heap))) \<and>
   Call_SendTransaction
     \<lparr>inner_to = Some R, inner_value = - 231000, inner_gas = 21000,
      inner_gasPrice = 111, inner_nonce = 5, inner_sig = (28, 2, 3)\<rparr>
     \<in> set (fst (ScanPending_txHash (scenario_chain (scenario_tx Y 100 0)) 1 scenario_heap))"
proof -
  from replacement_value [OF scenario_hyps(1) scenario_hyps(5) scenario_hyps(2,3,4),
      of Y 100 0 1]
  obtain r where "Value r = inner_value (scenario_tx Y 100 0) -
        (inner_gasPrice (scenario_tx Y 100 0) div 100 * 11) * uint (inner_gas (scenario_tx Y 100 0))"
    and "Call_SignNewTx 7 r \<in> set (fst (ScanPending_txHash (scenario_chain (scenario_tx Y 100 0)) 1 scenario_heap))"
    by blast
  then have "\<exists>r. Value r = - 231000 \<and>
        Call_SignNewTx 7 r \<in> set (fst (ScanPending_txHash (scenario_chain (scenario_tx Y 100 0)) 1 scenario_heap))"
    by (auto simp: scenario_tx_def)
  then show ?thesis
    by (simp add: scenario_hyps) (simp add: scenario_run)
qed

text \<open>
  Claim C4. On the chain \<^verbatim>\<open>Connect\<close> returns for a receiver address and a registry, in any
  later heap, a transaction with a destination whose recovered sender is in that registry
  gets exactly one replacement. It has the nonce and the gas limit of the observed
  transaction, and its destination is the chain's receiver pointer, which holds the
  address given to \<^verbatim>\<open>Connect\<close>; when signing succeeds, the signed transaction that is sent
  has that nonce, that gas limit and that address as its destination.
\<close>

theorem replacement_fields:
  assumes "Connect net endpoint reciver accs h0 = (Inr c, h1)"
    and "heap_extends h1 h"
    and "TransactionByHash (eth c) txHash = Inr tx"
    and "inner_to tx = Some dst"
    and "Sender (signer c) tx = Inr from"
    and "accs from = Some k"
  shows "\<exists>r. Call_SignNewTx k r \<in> set (fst (ScanPending_txHash c txHash h)) \<and>
             (\<forall>k' r'. Call_SignNewTx k' r' \<in> set (fst (ScanPending_txHash c txHash h)) \<longrightarrow> r' = r) \<and>
             Nonce r = inner_nonce tx \<and> Gas r = inner_gas tx \<and> To r = reciever c \<and>
             load (snd (ScanPending_txHash c txHash h)) (To r) = Some reciver \<and>
             (\<forall>signedTx. SignNewTx k (signer c) r (snd (ScanPending_txHash c txHash h)) = Inr signedTx \<longrightarrow>
                inner_nonce signedTx = inner_nonce tx \<and> inner_gas signedTx = inner_gas tx \<and>
                inner_to signedTx = Some reciver \<and>
                Call_SendTransaction signedTx \<in> set (fst (ScanPending_txHash c txHash h)))"
proof -
  define r where "r = \<lparr>To = reciever c,
              Value = inner_value tx - inner_gasPrice tx div 100 * 11 * uint (inner_gas tx),
              Gas = inner_gas tx,
              GasPrice = inner_gasPrice tx div 100 * 11 + inner_gasPrice tx,
              Nonce = inner_nonce tx\<rparr>"
  from holds_reciever_Connect [OF assms(1)] assms(2)
  have hr: "holds_reciever c reciver h"
    by (rule holds_reciever_extends)
  from Connect_accounts [OF assms(1)] assms(6)
  have key: "accounts c from = Some k" by simp
  note acc = accepted_replacement [OF assms(3,4,5) key hr r_def]
  from holds_reciever_ScanPending_txHash [OF hr, of txHash]
  have l: "load (snd (ScanPending_txHash c txHash h)) (To r) = Some reciver"
    by (auto simp: holds_reciever_def r_def)
  have f: "Nonce r = inner_nonce tx" "Gas r = inner_gas tx" "To r = reciever c"
    by (simp_all add: r_def)
  have b: "inner_nonce signedTx = inner_nonce tx \<and> inner_gas signedTx = inner_gas tx \<and>
           inner_to signedTx = Some reciver \<and>
           Call_SendTransaction signedTx \<in> set (fst (ScanPending_txHash c txHash h))"
    if "SignNewTx k (signer c) r (snd (ScanPending_txHash c txHash h)) = Inr signedTx" for signedTx
    using that SignNewTx_content [OF that] acc(3) f l by simp
  from acc(1,2) f l b show ?thesis by blast
qed

theorem replacement_fields_witness:
  "Connect (scenario_net (scenario_tx Y 100 1000000)) ''ws://node'' R [X \<mapsto> 7] empty_Heap =
     (Inr (scenario_chain (scenario_tx Y 100 1000000)), scenario_heap) \<and>
   heap_extends scenario_heap scenario_heap \<and>
   TransactionByHash (eth (scenario_chain (scenario_tx Y 100 1000000))) 1 = Inr (scenario_tx Y 100 1000000) \<and>
   inner_to (scenario_tx Y 100 1000000) = Some Y \<and>
   Sender (signer (scenario_chain (scenario_tx Y 100 1000000))) (scenario_tx Y 100 1000000) = Inr X \<and>
   [X \<mapsto> (7::int)] X = Some 7 \<and>
   (\<exists>r. Call_SignNewTx 7 r
           \<in> set (fst (ScanPending_txHash (scenario_chain (scenario_tx Y 100 1000000)) 1 scenario_heap)) \<and>
        Nonce r = 5 \<and> Gas r = 21000 \<and>
        load (snd (ScanPending_txHash (scenario_chain (scenario_tx Y 100 1000000)) 1 scenario_heap)) (To r)
          = Some R) \<and>
   Call_SendTransaction
     \<lparr>inner_to = Some R, inner_value = 769000, inner_gas = 21000,
      inner_gasPrice = 111, inner_nonce = 5, inner_sig = (28, 2, 3)\<rparr>
     \<in> set (fst (ScanPending_txHash (scenario_chain (scenario_tx Y 100 1000000)) 1 scenario_heap))"
proof -
  have k: "[X \<mapsto> (7::int)] X = Some 7" by simp
  from replacement_fields [OF scenario_Connect heap_extends_refl scenario_hyps(1) scenario_hyps(5)
      scenario_hyps(2) k, of Y 100 1000000 1]
  obtain r where "Call_SignNewTx 7 r
        \<in> set (fst (ScanPending_txHash (scenario_chain (scenario_tx Y 100 1000000)) 1 scenario_heap))"
    and "Nonce r = inner_nonce (scenario_tx Y 100 1000000)"
    and "Gas r = inner_gas (scenario_tx Y 100 1000000)"
    and "load (snd (ScanPending_txHash (scenario_chain (scenario_tx Y 100 1000000)) 1 scenario_heap)) (To r)
          = Some R"
    by blast
  then have "\<exists>r. Call_SignNewTx 7 r
           \<in> set (fst (ScanPending_txHash (scenario_chain (scenario_tx Y 100 1000000)) 1 scenario_heap)) \<and>
        Nonce r = 5 \<and> Gas r = 21000 \<and>
        load (snd (ScanPending_txHash (scenario_chain (scenario_tx Y 100 1000000)) 1 scenario_heap)) (To r)
          = Some R"
    by (auto simp: scenario_tx_def)
  moreover have "Call_SendTransaction
     \<lparr>inner_to = Some R, inner_value = 769000, inner_gas = 21000,
      inner_gasPrice = 111, inner_nonce = 5, inner_sig = (28, 2, 3)\<rparr>
     \<in> set (fst (ScanPending_txHash (scenario_chain (scenario_tx Y 100 1000000)) 1 scenario_heap))"
    by (simp add: scenario_run)
  ultimately show ?thesis
    using k scenario_Connect [of "scenario_tx Y 100 1000000"] heap_extends_refl [of scenario_heap]
      scenario_hyps(1) [of "scenario_tx Y 100 1000000" 1]
      scenario_hyps(2) [of "scenario_tx Y 100 1000000"] scenario_hyps(5) [of Y 100 1000000]
    by blast
qed

text \<open>
  Claim C5. When the recovered sender is not a key of the registry, no replacement is
  constructed: no call to \<^verbatim>\<open>SignNewTx\<close> and none to \<^verbatim>\<open>SendTransaction\<close> is made.
\<close>

theorem unknown_sender_no_replacement:
  assumes "TransactionByHash (eth c) txHash = Inr tx"
    and "Sender (signer c) tx = Inr from"
    and "accounts c from = None"
  shows "Call_SignNewTx k r \<notin> set (fst (ScanPending_txHash c txHash h)) \<and>
         Call_SendTransaction signedTx \<notin> set (fst (ScanPending_txHash c txHash h))"
  using assms
  by (auto simp: ScanPending_txHash_def Let_def split: sum.splits option.splits if_splits prod.splits)

theorem unknown_sender_no_replacement_witness:
  "TransactionByHash (eth ((scenario_chain (scenario_tx Y 100 1000000))\<lparr>accounts := Map.empty\<rparr>)) 1
     = Inr (scenario_tx Y 100 1000000) \<and>
   Sender (signer ((scenario_chain (scenario_tx Y 100 1000000))\<lparr>accounts := Map.empty\<rparr>))
     (scenario_tx Y 100 1000000) = Inr X \<and>
   accounts ((scenario_chain (scenario_tx Y 100 1000000))\<lparr>accounts := Map.empty\<rparr>) X = None \<and>
   Call_SignNewTx 7 (scenario_replacement 111 769000)
     \<notin> set (fst (ScanPending_txHash ((scenario_chain (scenario_tx Y 100 1000000))\<lparr>accounts := Map.empty\<rparr>)
                 1 scenario_heap))"
  using unknown_sender_no_replacement [of "(scenario_chain (scenario_tx Y 100 1000000))\<lparr>accounts := Map.empty\<rparr>"
      1 "scenario_tx Y 100 1000000" X 7 "scenario_replacement 111 769000" scenario_heap]
  by (simp add: scenario_chain_def scenario_signer_def)

text \<open>
  Claim C6. A transaction with no destination is skipped right after it is fetched: the
  only call is the fetch, so no sender is recovered and no replacement is constructed, and
  the run is the same for every registry and every signer.
\<close>

theorem contract_creation_skipped:
  assumes "TransactionByHash (eth c) txHash = Inr tx"
    and "inner_to tx = None"
  shows "ScanPending_txHash c txHash h = ([Call_TransactionByHash txHash], h) \<and>
         ScanPending_txHash (c\<lparr>accounts := accs, signer := s\<rparr>) txHash h = ScanPending_txHash c txHash h"
  using assms
  by (simp add: ScanPending_txHash_def tx_To_def)

theorem contract_creation_skipped_witness:
  "TransactionByHash (eth (scenario_chain ((scenario_tx Y 100 1000000)\<lparr>inner_to := None\<rparr>))) 1
     = Inr ((scenario_tx Y 100 1000000)\<lparr>inner_to := None\<rparr>) \<and>
   inner_to ((scenario_tx Y 100 1000000)\<lparr>inner_to := None\<rparr>) = None \<and>
   ScanPending_txHash (scenario_chain ((scenario_tx Y 100 1000000)\<lparr>inner_to := None\<rparr>)) 1 scenario_heap
     = ([Call_TransactionByHash 1], scenario_heap)"
  using contract_creation_skipped [of "scenario_chain ((scenario_tx Y 100 1000000)\<lparr>inner_to := None\<rparr>)" 1
      "(scenario_tx Y 100 1000000)\<lparr>inner_to := None\<rparr>" scenario_heap]
  by (simp add: scenario_chain_def)

text \<open>
  Claim C7. A line that does not parse as a private key is skipped: the registry is the
  one the other lines give, and every valid line after it is loaded under its address.
  For the line \<^verbatim>\<open>not-a-key\<close> followed by one valid key the registry has exactly one entry.
  The statement is about the lines the scanner yields.
\<close>

theorem malformed_line_skipped:
  assumes "HexToECDSA (strings_TrimPrefix bad ''0x'') = Inl e"
    and "HexToECDSA (strings_TrimPrefix good ''0x'') = Inr k"
  shows "snd (main_accounts P (pre @ bad # post) accs) = snd (main_accounts P (pre @ post) accs) \<and>
         (good \<in> set post \<longrightarrow>
            (\<exists>k'. snd (main_accounts P (pre @ bad # post) accs) (P k) = Some k' \<and> P k' = P k)) \<and>
         snd (main_accounts P [''not-a-key'', good] Map.empty) = [P k \<mapsto> k] \<and>
         len (snd (main_accounts P [''not-a-key'', good] Map.empty)) = 1"
proof -
  have a: "snd (main_accounts P (pre @ bad # post) accs) = snd (main_accounts P (pre @ post) accs)"
    by (rule main_accounts_skip [OF assms(1)])
  have b: "\<exists>k'. snd (main_accounts P (pre @ bad # post) accs) (P k) = Some k' \<and> P k' = P k"
    if "good \<in> set post"
  proof -
    from that have "good \<in> set (pre @ bad # post)" by simp
    from main_accounts_loaded [OF this assms(2)] show ?thesis .
  qed
  have c: "snd (main_accounts P [''not-a-key'', good] Map.empty) = [P k \<mapsto> k]"
    using assms(2) by (simp add: not_a_key)
  have d: "len (snd (main_accounts P [''not-a-key'', good] Map.empty)) = 1"
    unfolding c by (simp add: len_def)
  from a b c d show ?thesis by blast
qed

theorem malformed_line_skipped_witness:
  "HexToECDSA (strings_TrimPrefix ''not-a-key'' ''0x'') =
     Inl (Errorf ''invalid hex character %q in private key'' CHR ''n'') \<and>
   HexToECDSA (strings_TrimPrefix ''0x4c0883a69102937d6231471b5dbb6204fe5129617082792ae468d01a3f362318'' ''0x'')
     = Inr 0x4c0883a69102937d6231471b5dbb6204fe5129617082792ae468d01a3f362318 \<and>
   ''0x4c0883a69102937d6231471b5dbb6204fe5129617082792ae468d01a3f362318''
     \<in> set [''0x4c0883a69102937d6231471b5dbb6204fe5129617082792ae468d01a3f362318''] \<and>
   length (strings_TrimPrefix ''0x4c0883a69102937d6231471b5dbb6204fe5129617082792ae468d01a3f362318'' ''0x'') = 64 \<and>
   len (snd (main_accounts scenario_PubkeyToAddress
          [''not-a-key'', ''0x4c0883a69102937d6231471b5dbb6204fe5129617082792ae468d01a3f362318'']
          Map.empty)) = 1"
  using malformed_line_skipped [OF not_a_key good_key, of scenario_PubkeyToAddress "[]"
      "[''0x4c0883a69102937d6231471b5dbb6204fe5129617082792ae468d01a3f362318'']" Map.empty]
    not_a_key good_key
  by (simp add: strings_TrimPrefix_def)

text \<open>
  Claim C8, as stated: when the configuration file is absent the program writes a
  template whose \<^verbatim>\<open>reciever\<close> field is the zero address and whose \<^verbatim>\<open>endpoints\<close> field is an
  empty sequence, then halts. The template is the zero value of \<^verbatim>\<open>Config\<close>, whose
  endpoints are the \<^verbatim>\<open>nil\<close> slice, and that is written as \<^verbatim>\<open>null\<close>, not as an empty array.
\<close>

theorem template_endpoints_not_empty_sequence:
  "main absent_files (scenario_net (scenario_tx Y 100 1000000)) scenario_PubkeyToAddress empty_Heap ! 3 =
     Call_Encode (json_Marshal zero_Config) \<and>
   json_field ''endpoints'' (json_Marshal zero_Config) = Some JNull \<and>
   json_field ''endpoints'' (json_Marshal zero_Config) \<noteq> Some (JArray [])"
  by (simp add: main_def absent_files_def template)

text \<open>
  Claim C8, amended: when the configuration file is absent, the program halts with a
  fatal log line without connecting to any endpoint or starting any monitor; and when the
  file can be created and written, what it writes before halting is the template whose
  \<^verbatim>\<open>reciever\<close> field is the zero address and whose \<^verbatim>\<open>endpoints\<close> field is \<^verbatim>\<open>null\<close>, the
  form of the endpoint sequence with no elements.
\<close>

theorem missing_config_template:
  assumes "os_Open fs ''config.json'' = Inl ErrNotExist"
  shows "(os_Create fs ''config.json'' = None \<and> Encode fs (json_Marshal zero_Config) = None \<longrightarrow>
            main fs net P h =
              [Call_Open ''config.json'', Println ''config file not found, creating empty config'',
               Call_Create ''config.json'',
               Call_Encode (JObject [(''reciever'', JString ''0x0000000000000000000000000000000000000000''),
                                     (''endpoints'', JNull)]),
               Fatal ''empty config created, configure it now :)'']) \<and>
         Reciever zero_Config = 0 \<and> elems (Endpoints zero_Config) = [] \<and>
         (\<exists>msg. last (main fs net P h) = Fatal msg) \<and>
         filter is_Connect (main fs net P h) = []"
proof -
  have "Reciever zero_Config = 0 \<and> elems (Endpoints zero_Config) = []"
    by (simp add: zero_Config_def)
  moreover have "(\<exists>msg. last (main fs net P h) = Fatal msg) \<and> filter is_Connect (main fs net P h) = []"
    by (simp add: main_absent [OF assms] split: option.splits)
  moreover have "main fs net P h =
              [Call_Open ''config.json'', Println ''config file not found, creating empty config'',
               Call_Create ''config.json'',
               Call_Encode (JObject [(''reciever'', JString ''0x0000000000000000000000000000000000000000''),
                                     (''endpoints'', JNull)]),
               Fatal ''empty config created, configure it now :)'']"
    if "os_Create fs ''config.json'' = None" "Encode fs (json_Marshal zero_Config) = None"
    using that by (simp add: main_absent [OF assms] template)
  ultimately show ?thesis by blast
qed

theorem missing_config_template_witness:
  "os_Open absent_files ''config.json'' = Inl ErrNotExist \<and>
   os_Create absent_files ''config.json'' = None \<and>
   Encode absent_files (json_Marshal zero_Config) = None \<and>
   main absent_files (scenario_net (scenario_tx Y 100 1000000)) scenario_PubkeyToAddress empty_Heap =
     [Call_Open ''config.json'', Println ''config file not found, creating empty config'',
      Call_Create ''config.json'',
      Call_Encode (JObject [(''reciever'', JString ''0x0000000000000000000000000000000000000000''),
                            (''endpoints'', JNull)]),
      Fatal ''empty config created, configure it now :)'']"
  using missing_config_template [of absent_files "scenario_net (scenario_tx Y 100 1000000)"
      scenario_PubkeyToAddress empty_Heap]
  by (simp add: absent_files_def)

text \<open>
  Claim C9. A value received from the subscription's error channel ends the loop and is
  what \<^verbatim>\<open>ScanPending\<close> returns; nothing after it is processed. Every hash received before
  it is fetched, in order, whatever happened to the hashes before; without such a value
  the loop does not return. After any hash, whatever its outcome, the loop goes on with
  the rest. Each of the four failures abandons its hash at that step with one log line:
  when the fetch fails nothing else is called and the heap is unchanged; when sender
  recovery fails nothing is signed or sent; when signing fails nothing is sent; when
  sending fails the last line is the failure, not the report of a replacement. The
  witness runs the node for which each of the four steps fails once, on hashes 1 to 4,
  and the fifth hash is still replaced.
\<close>

theorem pipeline_failures_not_fatal:
  assumes "SubscribePendingTransactions (geth c) = None"
  shows "fst (snd (ScanPending c (map txChan hs @ sub_Err err # evs) h)) = Returned err \<and>
         fst (ScanPending c (map txChan hs @ sub_Err err # evs) h) = fst (ScanPending c (map txChan hs) h) \<and>
         filter is_TransactionByHash (fst (ScanPending c (map txChan hs @ sub_Err err # evs) h))
           = map Call_TransactionByHash hs \<and>
         fst (snd (ScanPending c (map txChan hs) h)) = Waiting \<and>
         ScanPending c (txChan txHash # evs) h =
           (fst (ScanPending_txHash c txHash h) @
              fst (ScanPending c evs (snd (ScanPending_txHash c txHash h))),
            snd (ScanPending c evs (snd (ScanPending_txHash c txHash h)))) \<and>
         (\<forall>e. TransactionByHash (eth c) txHash = Inl e \<longrightarrow>
            ScanPending_txHash c txHash h =
              ([Call_TransactionByHash txHash, Printf ''couldn't get tx by hash %s: %v''], h)) \<and>
         (\<forall>tx dst e.
            TransactionByHash (eth c) txHash = Inr tx \<and> inner_to tx = Some dst \<and>
            Sender (signer c) tx = Inl e \<longrightarrow>
            fst (ScanPending_txHash c txHash h) =
              [Call_TransactionByHash txHash, Call_Sender tx,
               Printf ''couldn't get sender for tx %s: %v'']) \<and>
         (\<forall>tx dst from k R'.
            TransactionByHash (eth c) txHash = Inr tx \<and> inner_to tx = Some dst \<and>
            Sender (signer c) tx = Inr from \<and> accounts c from = Some k \<and> holds_reciever c R' h \<longrightarrow>
            (\<exists>r. Call_SignNewTx k r \<in> set (fst (ScanPending_txHash c txHash h)) \<and>
               (\<forall>e. SignNewTx k (signer c) r (snd (ScanPending_txHash c txHash h)) = Inl e \<longrightarrow>
                  fst (ScanPending_txHash c txHash h) =
                    [Call_TransactionByHash txHash, Call_Sender tx, Call_SignNewTx k r,
                     Printf ''couldn't sign replacement tx for %s: %v'']) \<and>
               (\<forall>signedTx e.
                  SignNewTx k (signer c) r (snd (ScanPending_txHash c txHash h)) = Inr signedTx \<and>
                  SendTransaction (eth c) signedTx = Some e \<longrightarrow>
                  fst (ScanPending_txHash c txHash h) =
                    [Call_TransactionByHash txHash, Call_Sender tx, Call_SignNewTx k r,
                     Call_SendTransaction signedTx,
                     Printf ''couldn't send replacement tx for %s: %v''])))"
proof -
  have loop: "fst (snd (ScanPending c (map txChan hs @ sub_Err err # evs) h)) = Returned err \<and>
         fst (ScanPending c (map txChan hs @ sub_Err err # evs) h) = fst (ScanPending c (map txChan hs) h) \<and>
         filter is_TransactionByHash (fst (ScanPending c (map txChan hs @ sub_Err err # evs) h))
           = map Call_TransactionByHash hs \<and>
         fst (snd (ScanPending c (map txChan hs) h)) = Waiting \<and>
         ScanPending c (txChan txHash # evs) h =
           (fst (ScanPending_txHash c txHash h) @
              fst (ScanPending c evs (snd (ScanPending_txHash c txHash h))),
            snd (ScanPending c evs (snd (ScanPending_txHash c txHash h))))"
    using assms loop_until_error [of c hs err evs h] loop_fetches [of c hs h]
      ScanPending_loop_txChan [of c txHash evs h]
    by (simp add: ScanPending_def)
  have fetch: "\<forall>e. TransactionByHash (eth c) txHash = Inl e \<longrightarrow>
            ScanPending_txHash c txHash h =
              ([Call_TransactionByHash txHash, Printf ''couldn't get tx by hash %s: %v''], h)"
    using step_fetch_fails by blast
  have sender: "\<forall>tx dst e.
            TransactionByHash (eth c) txHash = Inr tx \<and> inner_to tx = Some dst \<and>
            Sender (signer c) tx = Inl e \<longrightarrow>
            fst (ScanPending_txHash c txHash h) =
              [Call_TransactionByHash txHash, Call_Sender tx,
               Printf ''couldn't get sender for tx %s: %v'']"
    using step_sender_fails by blast
  have sign: "\<forall>tx dst from k R'.
            TransactionByHash (eth c) txHash = Inr tx \<and> inner_to tx = Some dst \<and>
            Sender (signer c) tx = Inr from \<and> accounts c from = Some k \<and> holds_reciever c R' h \<longrightarrow>
            (\<exists>r. Call_SignNewTx k r \<in> set (fst (ScanPending_txHash c txHash h)) \<and>
               (\<forall>e. SignNewTx k (signer c) r (snd (ScanPending_txHash c txHash h)) = Inl e \<longrightarrow>
                  fst (ScanPending_txHash c txHash h) =
                    [Call_TransactionByHash txHash, Call_Sender tx, Call_SignNewTx k r,
                     Printf ''couldn't sign replacement tx for %s: %v'']) \<and>
               (\<forall>signedTx e.
                  SignNewTx k (signer c) r (snd (ScanPending_txHash c txHash h)) = Inr signedTx \<and>
                  SendTransaction (eth c) signedTx = Some e \<longrightarrow>
                  fst (ScanPending_txHash c txHash h) =
                    [Call_TransactionByHash txHash, Call_Sender tx, Call_SignNewTx k r,
                     Call_SendTransaction signedTx,
                     Printf ''couldn't send replacement tx for %s: %v'']))"
  proof (intro allI impI)
    fix tx dst "from" k R'
    assume a: "TransactionByHash (eth c) txHash = Inr tx \<and> inner_to tx = Some dst \<and>
            Sender (signer c) tx = Inr from \<and> accounts c from = Some k \<and> holds_reciever c R' h"
    then have a1: "TransactionByHash (eth c) txHash = Inr tx" and a2: "inner_to tx = Some dst"
      and a3: "Sender (signer c) tx = Inr from" and a4: "accounts c from = Some k"
      and a5: "holds_reciever c R' h"
      by simp_all
    show "\<exists>r. Call_SignNewTx k r \<in> set (fst (ScanPending_txHash c txHash h)) \<and>
               (\<forall>e. SignNewTx k (signer c) r (snd (ScanPending_txHash c txHash h)) = Inl e \<longrightarrow>
                  fst (ScanPending_txHash c txHash h) =
                    [Call_TransactionByHash txHash, Call_Sender tx, Call_SignNewTx k r,
                     Printf ''couldn't sign replacement tx for %s: %v'']) \<and>
               (\<forall>signedTx e.
                  SignNewTx k (signer c) r (snd (ScanPending_txHash c txHash h)) = Inr signedTx \<and>
                  SendTransaction (eth c) signedTx = Some e \<longrightarrow>
                  fst (ScanPending_txHash c txHash h) =
                    [Call_TransactionByHash txHash, Call_Sender tx, Call_SignNewTx k r,
                     Call_SendTransaction signedTx,
                     Printf ''couldn't send replacement tx for %s: %v''])"
      by (rule step_sign_send_fails [OF a1 a2 a3 a4 a5])
  qed
  from loop fetch sender sign show ?thesis by (elim conjE, intro conjI) assumption+
qed

theorem pipeline_failures_not_fatal_witness:
  "SubscribePendingTransactions (geth failing_chain) = None \<and>
   fst (snd (ScanPending failing_chain
     (map txChan [1, 2, 3, 4, 5] @ sub_Err (Some (Error ''EOF'')) # [txChan 6]) scenario_heap))
     = Returned (Some (Error ''EOF'')) \<and>
   TransactionByHash (eth failing_chain) 1 = Inl (Error ''not found'') \<and>
   ScanPending_txHash failing_chain 1 scenario_heap =
     ([Call_TransactionByHash 1, Printf ''couldn't get tx by hash %s: %v''], scenario_heap) \<and>
   TransactionByHash (eth failing_chain) 2 = Inr (scenario_tx Y 100 1000002) \<and>
   inner_to (scenario_tx Y 100 1000002) = Some Y \<and>
   Sender (signer failing_chain) (scenario_tx Y 100 1000002) = Inl (Error ''invalid signature'') \<and>
   fst (ScanPending_txHash failing_chain 2 scenario_heap) =
     [Call_TransactionByHash 2, Call_Sender (scenario_tx Y 100 1000002),
      Printf ''couldn't get sender for tx %s: %v''] \<and>
   TransactionByHash (eth failing_chain) 3 = Inr (scenario_tx Y 100 1000003) \<and>
   Sender (signer failing_chain) (scenario_tx Y 100 1000003) = Inr X \<and>
   accounts failing_chain X = Some 7 \<and>
   holds_reciever failing_chain R scenario_heap \<and>
   SignNewTx 7 (signer failing_chain) (scenario_replacement 111 769003)
     (snd (ScanPending_txHash failing_chain 3 scenario_heap)) = Inl (Error ''sign'') \<and>
   fst (ScanPending_txHash failing_chain 3 scenario_heap) =
     [Call_TransactionByHash 3, Call_Sender (scenario_tx Y 100 1000003),
      Call_SignNewTx 7 (scenario_replacement 111 769003),
      Printf ''couldn't sign replacement tx for %s: %v''] \<and>
   TransactionByHash (eth failing_chain) 4 = Inr (scenario_tx Y 100 1000004) \<and>
   Sender (signer failing_chain) (scenario_tx Y 100 1000004) = Inr X \<and>
   SignNewTx 7 (signer failing_chain) (scenario_replacement 111 769004)
     (snd (ScanPending_txHash failing_chain 4 scenario_heap)) =
     Inr \<lparr>inner_to = Some R, inner_value = 769004, inner_gas = 21000,
          inner_gasPrice = 111, inner_nonce = 5, inner_sig = (28, 2, 3)\<rparr> \<and>
   SendTransaction (eth failing_chain)
     \<lparr>inner_to = Some R, inner_value = 769004, inner_gas = 21000,
      inner_gasPrice = 111, inner_nonce = 5, inner_sig = (28, 2, 3)\<rparr> = Some (Error ''underpriced'') \<and>
   fst (ScanPending_txHash failing_chain 4 scenario_heap) =
     [Call_TransactionByHash 4, Call_Sender (scenario_tx Y 100 1000004),
      Call_SignNewTx 7 (scenario_replacement 111 769004),
      Call_SendTransaction
        \<lparr>inner_to = Some R, inner_value = 769004, inner_gas = 21000,
         inner_gasPrice = 111, inner_nonce = 5, inner_sig = (28, 2, 3)\<rparr>,
      Printf ''couldn't send replacement tx for %s: %v''] \<and>
   Printf ''replaced %s with %s'' \<in> set (fst (ScanPending failing_chain
     (map txChan [1, 2, 3, 4, 5] @ sub_Err (Some (Error ''EOF'')) # [txChan 6]) scenario_heap))"
proof -
  note t = pipeline_failures_not_fatal [OF failing_hyps(1), of "[1, 2, 3, 4, 5]"
      "Some (Error ''EOF'')" "[txChan 6]" scenario_heap 1]
  from t have r: "fst (snd (ScanPending failing_chain
          (map txChan [1, 2, 3, 4, 5] @ sub_Err (Some (Error ''EOF'')) # [txChan 6]) scenario_heap))
          = Returned (Some (Error ''EOF''))"
    by (elim conjE)
  from t have "\<forall>e. TransactionByHash (eth failing_chain) 1 = Inl e \<longrightarrow>
      ScanPending_txHash failing_chain 1 scenario_heap =
        ([Call_TransactionByHash 1, Printf ''couldn't get tx by hash %s: %v''], scenario_heap)"
    by (elim conjE)
  with failing_hyps(2) have f: "ScanPending_txHash failing_chain 1 scenario_heap =
        ([Call_TransactionByHash 1, Printf ''couldn't get tx by hash %s: %v''], scenario_heap)"
    by blast
  have p: "Printf ''replaced %s with %s'' \<in> set (fst (ScanPending failing_chain
     (map txChan [1, 2, 3, 4, 5] @ sub_Err (Some (Error ''EOF'')) # [txChan 6]) scenario_heap))"
    unfolding failing_trace by simp
  have y: "inner_to (scenario_tx Y 100 1000002) = Some Y"
    by (simp add: scenario_tx_def)
  from r f p y failing_hyps failing_steps show ?thesis
    by (intro conjI) assumption+
qed

text \<open>
  Claim C10. For a transaction with a destination whose recovered sender is in the
  registry of a chain that holds its receiver, and whose gas price \<open>g\<close> satisfies
  \<open>0 \<le> g < 100\<close>, exactly one replacement is constructed and passed to \<^verbatim>\<open>SignNewTx\<close>; the fee
  bump is 0, so it has gas price \<open>g\<close> and the observed value, and so has the signed
  transaction that is sent. Gas prices a node delivers are not negative.
\<close>

theorem small_gasPrice_no_bump:
  assumes "TransactionByHash (eth c) txHash = Inr tx"
    and "inner_to tx = Some dst"
    and "Sender (signer c) tx = Inr from"
    and "accounts c from = Some k"
    and "holds_reciever c R' h"
    and "0 \<le> inner_gasPrice tx"
    and "inner_gasPrice tx < 100"
  shows "\<exists>r. Call_SignNewTx k r \<in> set (fst (ScanPending_txHash c txHash h)) \<and>
             (\<forall>k' r'. Call_SignNewTx k' r' \<in> set (fst (ScanPending_txHash c txHash h)) \<longrightarrow> r' = r) \<and>
             GasPrice r = inner_gasPrice tx \<and> Value r = inner_value tx \<and>
             (\<forall>signedTx. SignNewTx k (signer c) r (snd (ScanPending_txHash c txHash h)) = Inr signedTx \<longrightarrow>
                inner_gasPrice signedTx = inner_gasPrice tx \<and> inner_value signedTx = inner_value tx \<and>
                Call_SendTransaction signedTx \<in> set (fst (ScanPending_txHash c txHash h)))"
proof -
  define r where "r = \<lparr>To = reciever c,
              Value = inner_value tx - inner_gasPrice tx div 100 * 11 * uint (inner_gas tx),
              Gas = inner_gas tx,
              GasPrice = inner_gasPrice tx div 100 * 11 + inner_gasPrice tx,
              Nonce = inner_nonce tx\<rparr>"
  note acc = accepted_replacement [OF assms(1-5) r_def]
  from assms(6,7) have z: "inner_gasPrice tx div 100 = 0" by simp
  have g: "GasPrice r = inner_gasPrice tx" "Value r = inner_value tx"
    by (simp_all add: r_def z)
  have b: "inner_gasPrice signedTx = inner_gasPrice tx \<and> inner_value signedTx = inner_value tx \<and>
           Call_SendTransaction signedTx \<in> set (fst (ScanPending_txHash c txHash h))"
    if "SignNewTx k (signer c) r (snd (ScanPending_txHash c txHash h)) = Inr signedTx" for signedTx
    using that SignNewTx_content [OF that] acc(3) g by simp
  from acc(1,2) g b show ?thesis by blast
qed

theorem small_gasPrice_no_bump_witness:
  "TransactionByHash (eth (scenario_chain (scenario_tx Y 99 1000000))) 1 = Inr (scenario_tx Y 99 1000000) \<and>
   inner_to (scenario_tx Y 99 1000000) = Some Y \<and>
   Sender (signer (scenario_chain (scenario_tx Y 99 1000000))) (scenario_tx Y 99 1000000) = Inr X \<and>
   accounts (scenario_chain (scenario_tx Y 99 1000000)) X = Some 7 \<and>
   holds_reciever (scenario_chain (scenario_tx Y 99 1000000)) R scenario_heap \<and>
   (0::int) \<le> inner_gasPrice (scenario_tx Y 99 1000000) \<and>
   inner_gasPrice (scenario_tx Y 99 1000000) < 100 \<and>
   (\<exists>r. Call_SignNewTx 7 r
           \<in> set (fst (ScanPending_txHash (scenario_chain (scenario_tx Y 99 1000000)) 1 scenario_heap)) \<and>
        GasPrice r = 99 \<and> Value r = 1000000) \<and>
   Call_SignNewTx 7 (scenario_replacement 99 1000000)
     \<in> set (fst (ScanPending_txHash (scenario_chain (scenario_tx Y 99 1000000)) 1 scenario_heap))"
proof -
  have p: "(0::int) \<le> inner_gasPrice (scenario_tx Y 99 1000000)"
    "inner_gasPrice (scenario_tx Y 99 1000000) < 100"
    by (simp_all add: scenario_tx_def)
  from small_gasPrice_no_bump [OF scenario_hyps(1) scenario_hyps(5) scenario_hyps(2,3,4) p,
      of 1]
  obtain r where "Call_SignNewTx 7 r
        \<in> set (fst (ScanPending_txHash (scenario_chain (scenario_tx Y 99 1000000)) 1 scenario_heap))"
    and "GasPrice r = inner_gasPrice (scenario_tx Y 99 1000000)"
    and "Value r = inner_value (scenario_tx Y 99 1000000)"
    by blast
  then have "\<exists>r. Call_SignNewTx 7 r
           \<in> set (fst (ScanPending_txHash (scenario_chain (scenario_tx Y 99 1000000)) 1 scenario_heap)) \<and>
        GasPrice r = 99 \<and> Value r = 1000000"
    by (auto simp: scenario_tx_def)
  moreover have "Call_SignNewTx 7 (scenario_replacement 99 1000000)
     \<in> set (fst (ScanPending_txHash (scenario_chain (scenario_tx Y 99 1000000)) 1 scenario_heap))"
    by (simp add: scenario_run)
  ultimately show ?thesis
    using p scenario_hyps(1) [of "scenario_tx Y 99 1000000" 1]
      scenario_hyps(2,3,4) [of "scenario_tx Y 99 1000000"] scenario_hyps(5) [of Y 99 1000000]
    by blast
qed

end
